theory Spec2Isabelle
  imports Main "HOL-Library.Word" "HOL-Library.Stream"
begin

unbundle bit_operations_syntax

section \<open>The relational store behind \<open>db_utils.py\<close>\<close>

text \<open>
  \<open>db_utils.py\<close> talks to MySQL through a \<open>pymysql\<close> connection. The model keeps the
  four tables the module touches as lists of rows in insertion order. A row carries the
  columns the module names in its statements, the auto-increment key \<open>id\<close> of the two
  tables that are re-read through \<open>cursor.lastrowid\<close>, and \<open>open_result_days\<close>, which
  the module reads from a space row but never writes (the schema fills it in).

  Modelling decisions that are not visible in the module itself:
  \<^item> string columns compare by exact equality (a binary collation);
  \<^item> a column stores the value it is handed, unchanged;
  \<^item> \<open>SELECT ... fetchone()\<close> returns the oldest matching row;
  \<^item> Python \<open>str\<close> is \<^typ>\<open>string\<close>, Python \<open>int\<close> is \<^typ>\<open>int\<close>, and a Python
    \<open>float\<close> argument is passed around as its 64-bit pattern.
\<close>

datatype error =
    MySQLError      \<comment> \<open>\<open>pymysql.MySQLError\<close>, re-raised by every \<open>except\<close> clause\<close>
  | TypeError       \<comment> \<open>raised by \<open>json.dumps\<close> and by \<open>timedelta(days=None)\<close>\<close>
  | ValueError      \<comment> \<open>raised by \<open>int.__repr__\<close> on more digits than the interpreter prints\<close>
  | RecursionError  \<comment> \<open>raised by \<open>json.dumps\<close> on a document nested too deep\<close>
  | OverflowError   \<comment> \<open>raised by \<open>datetime\<close> arithmetic that leaves year 1..9999\<close>

type_synonym pyfloat = "64 word"

datatype pyval =
    PNone
  | PBool bool
  | PInt int
  | PFloat string    \<comment> \<open>a \<open>float\<close>, by the text \<open>float.__repr__\<close> prints for it\<close>
  | PStr string
  | PList "pyval list"
  | PTuple "pyval list"
  | PDict "(pyval \<times> pyval) list"
  | PObject string   \<comment> \<open>any other object (\<open>bytes\<close>, \<open>set\<close>, \<open>datetime\<close>, ...), by type name\<close>

record organization_app =
  oa_uuid :: string
  oa_columns :: "(string \<times> pyval) list"

record space =
  s_id :: int
  s_organization_id :: int
  s_space_code :: string
  s_space_name :: string
  s_open_result_days :: "int option"

record participant =
  p_id :: int
  p_uuid :: string
  p_organization_id :: int
  p_space_id :: int
  p_participant_code :: string
  p_participant_user_code :: string
  p_participant_name :: string
  p_result_closed_at :: string

record face_auth_log =
  l_authentication_code :: string
  l_organization_id :: int
  l_space_id :: int
  l_participant_id :: int
  l_is_authenticated :: bool
  l_reason :: string
  l_logs :: string
  l_threshold :: pyfloat

record database =
  organization_apps :: "organization_app list"
  spaces :: "space list"
  spaces_auto_increment :: int
  spaces_default_open_result_days :: "int option"
  participants :: "participant list"
  participants_auto_increment :: int
  face_auth_logs :: "face_auth_log list"

text \<open>
  A connection is the database plus the number of statements the server will still
  answer: \<open>None\<close> is a connection that never fails, \<open>Some n\<close> one that answers \<open>n\<close> more
  statements and raises \<open>pymysql.MySQLError\<close> on every later one.
\<close>

record connection =
  db :: database
  statements_left :: "nat option"

text \<open>\<open>cursor.execute(sql, args)\<close> followed by reading the cursor.\<close>

definition execute ::
  "connection \<Rightarrow> (database \<Rightarrow> 'a \<times> database) \<Rightarrow> (error + 'a) \<times> connection" where
  "execute conn stmt =
     (case statements_left conn of
        None \<Rightarrow> (case stmt (db conn) of (r, d) \<Rightarrow> (Inr r, conn\<lparr>db := d\<rparr>))
      | Some 0 \<Rightarrow> (Inl MySQLError, conn)
      | Some (Suc n) \<Rightarrow>
          (case stmt (db conn) of (r, d) \<Rightarrow> (Inr r, conn\<lparr>db := d, statements_left := Some n\<rparr>)))"

text \<open>
  Two notions for stating properties: a connection that will answer at least \<open>n\<close> more
  statements, and the connection left after \<open>n\<close> statements were answered.
\<close>

definition answers :: "nat \<Rightarrow> connection \<Rightarrow> bool" where
  "answers n conn = (case statements_left conn of None \<Rightarrow> True | Some k \<Rightarrow> n \<le> k)"

definition spend :: "nat \<Rightarrow> connection \<Rightarrow> connection" where
  "spend n conn = conn\<lparr>statements_left := map_option (\<lambda>k. k - n) (statements_left conn)\<rparr>"

subsection \<open>The statements of the module\<close>

text \<open>\<open>SELECT * FROM organization_apps WHERE uuid = %s\<close>\<close>

definition select_organization_app :: "string \<Rightarrow> database \<Rightarrow> organization_app option \<times> database" where
  "select_organization_app u d = (find (\<lambda>r. oa_uuid r = u) (organization_apps d), d)"

text \<open>\<open>SELECT * FROM spaces WHERE organization_id = %s AND space_code = %s\<close>\<close>

definition select_space :: "int \<Rightarrow> string \<Rightarrow> database \<Rightarrow> space option \<times> database" where
  "select_space organization_id space_code d =
     (find (\<lambda>r. s_organization_id r = organization_id \<and> s_space_code r = space_code) (spaces d), d)"

text \<open>
  \<open>INSERT INTO spaces (organization_id, space_code, space_name) VALUES (%s, %s, %s)\<close>,
  answering \<open>cursor.lastrowid\<close>.
\<close>

definition insert_space :: "int \<Rightarrow> string \<Rightarrow> string \<Rightarrow> database \<Rightarrow> int \<times> database" where
  "insert_space organization_id space_code space_name d =
     (spaces_auto_increment d,
      d\<lparr>spaces := spaces d @
           [\<lparr>s_id = spaces_auto_increment d, s_organization_id = organization_id,
             s_space_code = space_code, s_space_name = space_name,
             s_open_result_days = spaces_default_open_result_days d\<rparr>],
        spaces_auto_increment := spaces_auto_increment d + 1\<rparr>)"

text \<open>\<open>SELECT * FROM spaces WHERE id = %s\<close>\<close>

definition select_space_by_id :: "int \<Rightarrow> database \<Rightarrow> space option \<times> database" where
  "select_space_by_id i d = (find (\<lambda>r. s_id r = i) (spaces d), d)"

text \<open>
  \<open>SELECT * FROM participants WHERE organization_id = %s AND space_id = %s AND
  participant_code = %s\<close>
\<close>

definition select_participant :: "int \<Rightarrow> int \<Rightarrow> string \<Rightarrow> database \<Rightarrow> participant option \<times> database" where
  "select_participant organization_id space_id participant_code d =
     (find (\<lambda>r. p_organization_id r = organization_id \<and> p_space_id r = space_id
                \<and> p_participant_code r = participant_code) (participants d), d)"

text \<open>\<open>SELECT * FROM participants WHERE uuid = %s\<close>\<close>

definition select_participant_by_uuid :: "string \<Rightarrow> database \<Rightarrow> participant option \<times> database" where
  "select_participant_by_uuid u d = (find (\<lambda>r. p_uuid r = u) (participants d), d)"

text \<open>
  \<open>INSERT INTO participants (uuid, organization_id, space_id, participant_code,
  participant_user_code, participant_name, result_closed_at) VALUES (...)\<close>, answering
  \<open>cursor.lastrowid\<close>.
\<close>

definition insert_participant ::
  "string \<Rightarrow> int \<Rightarrow> int \<Rightarrow> string \<Rightarrow> string \<Rightarrow> string \<Rightarrow> string \<Rightarrow> database \<Rightarrow> int \<times> database" where
  "insert_participant participant_uuid organization_id space_id participant_code
       participant_user_code participant_name result_closed_at d =
     (participants_auto_increment d,
      d\<lparr>participants := participants d @
           [\<lparr>p_id = participants_auto_increment d, p_uuid = participant_uuid,
             p_organization_id = organization_id, p_space_id = space_id,
             p_participant_code = participant_code,
             p_participant_user_code = participant_user_code,
             p_participant_name = participant_name,
             p_result_closed_at = result_closed_at\<rparr>],
        participants_auto_increment := participants_auto_increment d + 1\<rparr>)"

text \<open>\<open>SELECT * FROM participants WHERE id = %s\<close>\<close>

definition select_participant_by_id :: "int \<Rightarrow> database \<Rightarrow> participant option \<times> database" where
  "select_participant_by_id i d = (find (\<lambda>r. p_id r = i) (participants d), d)"

text \<open>
  \<open>INSERT INTO face_auth_logs (authentication_code, organization_id, space_id,
  participant_id, is_authenticated, reason, logs, threshold) VALUES (...)\<close>
\<close>

definition insert_face_auth_log :: "face_auth_log \<Rightarrow> database \<Rightarrow> unit \<times> database" where
  "insert_face_auth_log row d = ((), d\<lparr>face_auth_logs := face_auth_logs d @ [row]\<rparr>)"

text \<open>
  The auto-increment counters lie above every key in use. MySQL keeps this and the
  module never writes a key itself.
\<close>

definition wf_database :: "database \<Rightarrow> bool" where
  "wf_database d \<longleftrightarrow>
     (\<forall>r \<in> set (spaces d). s_id r < spaces_auto_increment d) \<and>
     (\<forall>r \<in> set (participants d). p_id r < participants_auto_increment d)"

section \<open>\<open>get_organization_app\<close>\<close>

text \<open>\<open>str.replace('-', '')\<close>\<close>

definition remove_hyphens :: "string \<Rightarrow> string" where
  "remove_hyphens s = filter (\<lambda>c. c \<noteq> CHR ''-'') s"

definition get_organization_app ::
  "connection \<Rightarrow> string \<Rightarrow> (error + organization_app option) \<times> connection" where
  "get_organization_app conn uuid =
     (case execute conn (select_organization_app (remove_hyphens uuid)) of
        (Inl e, c) \<Rightarrow> (Inl e, c)
      | (Inr organization_app, c) \<Rightarrow> (Inr organization_app, c))"

section \<open>\<open>get_or_create_space\<close>\<close>

definition get_or_create_space ::
  "connection \<Rightarrow> int \<Rightarrow> string \<Rightarrow> string \<Rightarrow> (error + space option) \<times> connection" where
  "get_or_create_space conn organization_id space_code space_name =
     (case execute conn (select_space organization_id space_code) of
        (Inl e, c1) \<Rightarrow> (Inl e, c1)
      | (Inr (Some space), c1) \<Rightarrow> (Inr (Some space), c1)
      | (Inr None, c1) \<Rightarrow>
          (case execute c1 (insert_space organization_id space_code space_name) of
             (Inl e, c2) \<Rightarrow> (Inl e, c2)
           | (Inr space_id, c2) \<Rightarrow>
               (case execute c2 (select_space_by_id space_id) of
                  (Inl e, c3) \<Rightarrow> (Inl e, c3)
                | (Inr space, c3) \<Rightarrow> (Inr space, c3))))"

section \<open>Python library functions the module calls\<close>

subsection \<open>Decimal and hexadecimal text\<close>

definition digit_char :: "nat \<Rightarrow> char" where
  "digit_char n = ''0123456789abcdef'' ! n"

text \<open>\<open>str(n)\<close> for a natural number.\<close>

fun dec :: "nat \<Rightarrow> string" where
  "dec n = (if n < 10 then [digit_char n] else dec (n div 10) @ [digit_char (n mod 10)])"

declare dec.simps [simp del]

text \<open>\<open>'%0wd' % n\<close>: left-padded with zeros to width \<open>w\<close>.\<close>

definition zfill :: "nat \<Rightarrow> string \<Rightarrow> string" where
  "zfill w s = replicate (w - length s) CHR ''0'' @ s"

text \<open>The \<open>n\<close> lowest hexadecimal digits of a 128-bit value, most significant first.\<close>

fun hex_digits :: "nat \<Rightarrow> 128 word \<Rightarrow> string" where
  "hex_digits 0 w = []"
| "hex_digits (Suc n) w = hex_digits n (drop_bit 4 w) @ [digit_char (unat (w AND 15))]"

subsection \<open>\<open>uuid.uuid4().hex\<close>\<close>

text \<open>
  \<open>uuid.uuid4()\<close> draws 16 random bytes \<open>r\<close> and builds \<open>UUID(bytes=r, version=4)\<close>,
  which forces the variant bits to \<open>10\<close> and the version nibble to \<open>4\<close>; \<open>.hex\<close> is
  \<open>'%032x' % int\<close>.
\<close>

definition uuid4 :: "128 word \<Rightarrow> 128 word" where
  "uuid4 r =
     (((r AND NOT (push_bit 48 0xc000)) OR push_bit 48 0x8000)
        AND NOT (push_bit 64 0xf000)) OR push_bit 76 4"

definition hex :: "128 word \<Rightarrow> string" where
  "hex w = hex_digits 32 w"

subsection \<open>\<open>datetime\<close>\<close>

text \<open>
  A naive \<open>datetime.datetime\<close>, with the proleptic Gregorian day arithmetic of the
  standard library (\<open>_ymd2ord\<close> and \<open>_ord2ymd\<close>).
\<close>

record datetime =
  year :: int
  month :: int
  day :: int
  hour :: int
  minute :: int
  second :: int
  microsecond :: int

definition DAYS_IN_MONTH :: "int list" where
  "DAYS_IN_MONTH = [-1, 31, 28, 31, 30, 31, 30, 31, 31, 30, 31, 30, 31]"

definition DAYS_BEFORE_MONTH :: "int list" where
  "DAYS_BEFORE_MONTH = [-1, 0, 31, 59, 90, 120, 151, 181, 212, 243, 273, 304, 334]"

definition is_leap :: "int \<Rightarrow> bool" where
  "is_leap y \<longleftrightarrow> y mod 4 = 0 \<and> (y mod 100 \<noteq> 0 \<or> y mod 400 = 0)"

definition days_before_year :: "int \<Rightarrow> int" where
  "days_before_year y = (y - 1) * 365 + (y - 1) div 4 - (y - 1) div 100 + (y - 1) div 400"


definition days_before_month :: "int \<Rightarrow> int \<Rightarrow> int" where
  "days_before_month y m = DAYS_BEFORE_MONTH ! nat m + (if m > 2 \<and> is_leap y then 1 else 0)"

definition ymd2ord :: "int \<Rightarrow> int \<Rightarrow> int \<Rightarrow> int" where
  "ymd2ord y m d = days_before_year y + days_before_month y m + d"

definition DI400Y :: int where "DI400Y = days_before_year 401"
definition DI100Y :: int where "DI100Y = days_before_year 101"
definition DI4Y :: int where "DI4Y = days_before_year 5"
definition MAXORDINAL :: int where "MAXORDINAL = 3652059"

definition ord2ymd :: "int \<Rightarrow> int \<times> int \<times> int" where
  "ord2ymd ordinal =
     (let n = ordinal - 1;
          n400 = n div DI400Y; n = n mod DI400Y;
          y = n400 * 400 + 1;
          n100 = n div DI100Y; n = n mod DI100Y;
          n4 = n div DI4Y; n = n mod DI4Y;
          n1 = n div 365; n = n mod 365;
          y = y + n100 * 100 + n4 * 4 + n1
      in if n1 = 4 \<or> n100 = 4 then (y - 1, 12, 31)
         else
           let leapyear = (n1 = 3 \<and> (n4 \<noteq> 24 \<or> n100 = 3));
               m = (n + 50) div 32;
               preceding = DAYS_BEFORE_MONTH ! nat m + (if m > 2 \<and> leapyear then 1 else 0)
           in if preceding > n
              then (y, m - 1,
                    n - (preceding - (DAYS_IN_MONTH ! nat (m - 1)
                                        + (if m - 1 = 2 \<and> leapyear then 1 else 0))) + 1)
              else (y, m, n - preceding + 1))"


definition toordinal :: "datetime \<Rightarrow> int" where
  "toordinal t = ymd2ord (year t) (month t) (day t)"

text \<open>
  \<open>datetime.timedelta(days=v)\<close> for the value \<open>v\<close> of an integer column: \<open>None\<close> (SQL
  \<open>NULL\<close>) is no number, and the magnitude of a \<open>timedelta\<close> is limited.
\<close>

definition timedelta :: "int option \<Rightarrow> error + int" where
  "timedelta days =
     (case days of
        None \<Rightarrow> Inl TypeError
      | Some n \<Rightarrow> if \<bar>n\<bar> > 999999999 then Inl OverflowError else Inr n)"

text \<open>\<open>t + timedelta(days=n)\<close>: the time of day stays, the date moves by \<open>n\<close> days.\<close>

definition datetime_add :: "datetime \<Rightarrow> int \<Rightarrow> error + datetime" where
  "datetime_add t n =
     (let days = toordinal t + n
      in if 0 < days \<and> days \<le> MAXORDINAL
         then (case ord2ymd days of (y, m, d) \<Rightarrow> Inr (t\<lparr>year := y, month := m, day := d\<rparr>))
         else Inl OverflowError)"

text \<open>
  \<open>t.strftime('%Y-%m-%d %H:%M:%S.%f')\<close>. The month, the day and the time fields are
  zero-padded to their width. The year is printed by the C library, which on Linux
  does not pad it: the year 928 is \<open>928\<close>.
\<close>

definition strftime :: "datetime \<Rightarrow> string" where
  "strftime t =
     dec (nat (year t)) @ ''-'' @ zfill 2 (dec (nat (month t))) @ ''-'' @
     zfill 2 (dec (nat (day t))) @ '' '' @ zfill 2 (dec (nat (hour t))) @ '':'' @
     zfill 2 (dec (nat (minute t))) @ '':'' @ zfill 2 (dec (nat (second t))) @ ''.'' @
     zfill 6 (dec (nat (microsecond t)))"

subsection \<open>\<open>json.dumps\<close>\<close>

text \<open>
  \<open>json.dumps(obj)\<close> with its default arguments: \<open>ensure_ascii\<close> escapes every
  character outside the printable ASCII range, the separators are \<open>', '\<close> and \<open>': '\<close>,
  dictionary items come in insertion order, a tuple is written as a list, and a key
  has to be a \<open>str\<close>, an \<open>int\<close>, a \<open>float\<close>, a \<open>bool\<close> or \<open>None\<close>. The encoder raises
  \<^item> \<open>TypeError\<close> for an object or a key of any other type,
  \<^item> \<open>ValueError\<close> for an \<open>int\<close> of more than 4300 digits, which \<open>int.__repr__\<close>
    refuses to print,
  \<^item> \<open>RecursionError\<close> when it enters more nested lists, tuples and dictionaries than
    the interpreter has stack levels left. That number depends on where the call is
    made; it is the argument \<open>depth\<close>.
\<close>

definition escape_char :: "char \<Rightarrow> string" where
  "escape_char c =
     (if c = CHR 0x22 then [CHR 0x5C, CHR 0x22]
      else if c = CHR 0x5C then [CHR 0x5C, CHR 0x5C]
      else if c = CHR 0x0A then [CHR 0x5C, CHR ''n'']
      else if c = CHR 0x0D then [CHR 0x5C, CHR ''r'']
      else if c = CHR 0x09 then [CHR 0x5C, CHR ''t'']
      else if c = CHR 0x08 then [CHR 0x5C, CHR ''b'']
      else if c = CHR 0x0C then [CHR 0x5C, CHR ''f'']
      else if 32 \<le> (of_char c :: nat) \<and> (of_char c :: nat) \<le> 126 then [c]
      else [CHR 0x5C, CHR ''u'', CHR ''0'', CHR ''0'',
            digit_char (of_char c div 16), digit_char (of_char c mod 16)])"

definition encode_basestring_ascii :: "string \<Rightarrow> string" where
  "encode_basestring_ascii s = [CHR 0x22] @ concat (map escape_char s) @ [CHR 0x22]"

text \<open>\<open>sys.get_int_max_str_digits()\<close>, and \<open>int.__repr__\<close>, which counts the digits
  without the sign.\<close>

definition int_max_str_digits :: nat where
  "int_max_str_digits = 4300"

definition int_repr :: "int \<Rightarrow> error + string" where
  "int_repr i =
     (if length (dec (nat \<bar>i\<bar>)) > int_max_str_digits then Inl ValueError
      else Inr (if i < 0 then ''-'' @ dec (nat (- i)) else dec (nat i)))"

text \<open>A \<open>float\<close> in JSON: \<open>float.__repr__\<close>, but for the three values that have no
  JSON number.\<close>

definition float_text :: "string \<Rightarrow> string" where
  "float_text r =
     (if r = ''nan'' then ''NaN''
      else if r = ''inf'' then ''Infinity''
      else if r = ''-inf'' then ''-Infinity''
      else r)"

text \<open>\<open>sep.join(parts)\<close>\<close>

fun join :: "string \<Rightarrow> string list \<Rightarrow> string" where
  "join sep [] = []"
| "join sep [x] = x"
| "join sep (x # y # ys) = x @ sep @ join sep (y # ys)"

text \<open>The text of a dictionary key, before it is quoted.\<close>

fun key_text :: "pyval \<Rightarrow> error + string" where
  "key_text (PStr s) = Inr s"
| "key_text (PFloat r) = Inr (float_text r)"
| "key_text (PBool b) = Inr (if b then ''true'' else ''false'')"
| "key_text PNone = Inr ''null''"
| "key_text (PInt i) = int_repr i"
| "key_text (PList xs) = Inl TypeError"
| "key_text (PTuple xs) = Inl TypeError"
| "key_text (PDict kvs) = Inl TypeError"
| "key_text (PObject n) = Inl TypeError"

fun json_dumps :: "nat \<Rightarrow> pyval \<Rightarrow> error + string"
  and dumps_list :: "nat \<Rightarrow> pyval list \<Rightarrow> error + string list"
  and dumps_items :: "nat \<Rightarrow> (pyval \<times> pyval) list \<Rightarrow> error + string list" where
  "json_dumps depth PNone = Inr ''null''"
| "json_dumps depth (PBool b) = Inr (if b then ''true'' else ''false'')"
| "json_dumps depth (PStr s) = Inr (encode_basestring_ascii s)"
| "json_dumps depth (PInt i) = int_repr i"
| "json_dumps depth (PFloat r) = Inr (float_text r)"
| "json_dumps depth (PList xs) =
     (if depth = 0 then Inl RecursionError
      else case dumps_list (depth - 1) xs of
             Inl e \<Rightarrow> Inl e
           | Inr parts \<Rightarrow> Inr (''['' @ join '', '' parts @ '']''))"
| "json_dumps depth (PTuple xs) =
     (if depth = 0 then Inl RecursionError
      else case dumps_list (depth - 1) xs of
             Inl e \<Rightarrow> Inl e
           | Inr parts \<Rightarrow> Inr (''['' @ join '', '' parts @ '']''))"
| "json_dumps depth (PDict kvs) =
     (if depth = 0 then Inl RecursionError
      else case dumps_items (depth - 1) kvs of
             Inl e \<Rightarrow> Inl e
           | Inr parts \<Rightarrow> Inr (''{'' @ join '', '' parts @ ''}''))"
| "json_dumps depth (PObject n) = Inl TypeError"
| "dumps_list depth [] = Inr []"
| "dumps_list depth (x # xs) =
     (case json_dumps depth x of
        Inl e \<Rightarrow> Inl e
      | Inr part \<Rightarrow>
          (case dumps_list depth xs of Inl e \<Rightarrow> Inl e | Inr parts \<Rightarrow> Inr (part # parts)))"
| "dumps_items depth [] = Inr []"
| "dumps_items depth (kv # kvs) =
     (case key_text (fst kv) of
        Inl e \<Rightarrow> Inl e
      | Inr k \<Rightarrow>
          (case json_dumps depth (snd kv) of
             Inl e \<Rightarrow> Inl e
           | Inr v \<Rightarrow>
               (case dumps_items depth kvs of
                  Inl e \<Rightarrow> Inl e
                | Inr parts \<Rightarrow> Inr ((encode_basestring_ascii k @ '': '' @ v) # parts))))"

section \<open>\<open>get_or_create_participant\<close>\<close>

text \<open>
  The function reads two things from outside the database: the random bytes behind each
  \<open>uuid.uuid4()\<close>, given as the stream \<open>rng\<close> of the values still to come, and the clock
  \<open>datetime.datetime.now()\<close>, given as the instant \<open>now\<close> it answers. \<open>while_exist\<close> is
  the loop \<open>while exist:\<close>; it has no bound, so its result is \<open>None\<close> when it never
  leaves.
\<close>

partial_function (option) while_exist ::
  "connection \<Rightarrow> int \<Rightarrow> space \<Rightarrow> string \<Rightarrow> string \<Rightarrow> string \<Rightarrow> 128 word stream \<Rightarrow> datetime
     \<Rightarrow> ((error + participant option) \<times> connection) option" where
  "while_exist conn organization_id space participant_code participant_user_code
       participant_name rng now =
     (case execute conn (select_participant_by_uuid (hex (uuid4 (shd rng)))) of
        (Inl e, c1) \<Rightarrow> Some (Inl e, c1)
      | (Inr (Some exist_participant), c1) \<Rightarrow>
          while_exist c1 organization_id space participant_code participant_user_code
            participant_name (stl rng) now
      | (Inr None, c1) \<Rightarrow>
          (case timedelta (s_open_result_days space) of
             Inl e \<Rightarrow> Some (Inl e, c1)
           | Inr days \<Rightarrow>
               (case datetime_add now days of
                  Inl e \<Rightarrow> Some (Inl e, c1)
                | Inr result_closed_at \<Rightarrow>
                    (case execute c1
                            (insert_participant (hex (uuid4 (shd rng))) organization_id
                               (s_id space) participant_code participant_user_code
                               participant_name (strftime result_closed_at)) of
                       (Inl e, c2) \<Rightarrow> Some (Inl e, c2)
                     | (Inr participant_id, c2) \<Rightarrow>
                         (case execute c2 (select_participant_by_id participant_id) of
                            (Inl e, c3) \<Rightarrow> Some (Inl e, c3)
                          | (Inr participant, c3) \<Rightarrow> Some (Inr participant, c3))))))"

definition get_or_create_participant ::
  "connection \<Rightarrow> int \<Rightarrow> space \<Rightarrow> string \<Rightarrow> string \<Rightarrow> string \<Rightarrow> 128 word stream \<Rightarrow> datetime
     \<Rightarrow> ((error + participant option) \<times> connection) option" where
  "get_or_create_participant conn organization_id space participant_code
       participant_user_code participant_name rng now =
     (case execute conn (select_participant organization_id (s_id space) participant_code) of
        (Inl e, c1) \<Rightarrow> Some (Inl e, c1)
      | (Inr (Some participant), c1) \<Rightarrow> Some (Inr (Some participant), c1)
      | (Inr None, c1) \<Rightarrow>
          while_exist c1 organization_id space participant_code participant_user_code
            participant_name rng now)"

text \<open>
  For stating properties of the loop: the row the \<open>INSERT\<close> of
  \<open>get_or_create_participant\<close> creates, the \<open>i\<close>-th identifier the random stream
  yields, and whether an identifier is already in the table.
\<close>

definition new_participant ::
  "database \<Rightarrow> string \<Rightarrow> int \<Rightarrow> space \<Rightarrow> string \<Rightarrow> string \<Rightarrow> string \<Rightarrow> string \<Rightarrow> participant" where
  "new_participant d participant_uuid organization_id space participant_code
       participant_user_code participant_name result_closed_at =
     \<lparr>p_id = participants_auto_increment d, p_uuid = participant_uuid,
      p_organization_id = organization_id, p_space_id = s_id space,
      p_participant_code = participant_code,
      p_participant_user_code = participant_user_code,
      p_participant_name = participant_name,
      p_result_closed_at = result_closed_at\<rparr>"

definition candidate :: "128 word stream \<Rightarrow> nat \<Rightarrow> string" where
  "candidate rng i = hex (uuid4 (rng !! i))"

definition collides :: "database \<Rightarrow> string \<Rightarrow> bool" where
  "collides d u \<longleftrightarrow> find (\<lambda>r. p_uuid r = u) (participants d) \<noteq> None"

section \<open>\<open>create_face_auth_log\<close>\<close>

text \<open>
  The argument tuple of \<open>cursor.execute\<close> is built first, left to right, so
  \<open>json.dumps(reason)\<close> and \<open>json.dumps(logs)\<close> run before the statement is sent; an
  exception of theirs is not a \<open>pymysql.MySQLError\<close> and leaves the function as it
  is. Besides its arguments the function depends on \<open>depth\<close>, the stack levels the
  interpreter has left for the encoder at this call.
\<close>

definition create_face_auth_log ::
  "nat \<Rightarrow> connection \<Rightarrow> int \<Rightarrow> int \<Rightarrow> int \<Rightarrow> string \<Rightarrow> bool \<Rightarrow> pyval \<Rightarrow> pyval \<Rightarrow> pyfloat
     \<Rightarrow> (error + bool) \<times> connection" where
  "create_face_auth_log depth conn organization_id space_id participant_id
       authentication_code is_authenticated reason logs threshold =
     (case json_dumps depth reason of
        Inl e \<Rightarrow> (Inl e, conn)
      | Inr reason_json \<Rightarrow>
          (case json_dumps depth logs of
             Inl e \<Rightarrow> (Inl e, conn)
           | Inr logs_json \<Rightarrow>
               (case execute conn
                       (insert_face_auth_log
                          \<lparr>l_authentication_code = authentication_code,
                           l_organization_id = organization_id, l_space_id = space_id,
                           l_participant_id = participant_id,
                           l_is_authenticated = is_authenticated, l_reason = reason_json,
                           l_logs = logs_json, l_threshold = threshold\<rparr>) of
                  (Inl e, c) \<Rightarrow> (Inl e, c)
                | (Inr u, c) \<Rightarrow> (Inr True, c))))"

section \<open>\<open>ssm_utils.get_parameter\<close>\<close>

text \<open>
  The parameter store is what \<open>ssm.get_parameter(Name=key, WithDecryption=True)\<close>
  answers for each key: the text at \<open>response['Parameter']['Value']\<close>, or the exception
  it raises. \<open>boto3.client('ssm')\<close> can fail before that, outside the \<open>try\<close>. The
  function's effect besides its result is the record it hands to \<open>logger.warning\<close>.
\<close>

datatype ssm_exception =
    ParameterNotFound
  | OtherException string   \<comment> \<open>any other exception, by its description\<close>

type_synonym ssm_client = "string \<Rightarrow> ssm_exception + string"

record log_record =
  levelname :: string
  msg :: string

definition get_parameter ::
  "(ssm_exception + ssm_client) \<Rightarrow> log_record list \<Rightarrow> string \<Rightarrow> pyval
     \<Rightarrow> (ssm_exception + pyval) \<times> log_record list" where
  "get_parameter boto3_client logger param_key default_value =
     (case boto3_client of
        Inl e \<Rightarrow> (Inl e, logger)
      | Inr ssm \<Rightarrow>
          (case ssm param_key of
             Inl ParameterNotFound \<Rightarrow>
               (Inr default_value,
                logger @ [\<lparr>levelname = ''WARNING'',
                           msg = ''Parameter {'' @ param_key @ ''} not found. Returning default value.''\<rparr>])
           | Inl (OtherException x) \<Rightarrow> (Inl (OtherException x), logger)
           | Inr v \<Rightarrow> (Inr (PStr v), logger)))"

section \<open>A small database for examples\<close>

definition example_db :: database where
  "example_db =
     \<lparr>organization_apps =
        [\<lparr>oa_uuid = ''0f8fad5bd9cb469fa16570867728950e'',
          oa_columns = [(''id'', PInt 42), (''name'', PStr ''Example Org'')]\<rparr>],
      spaces =
        [\<lparr>s_id = 1, s_organization_id = 42, s_space_code = ''S1'',
          s_space_name = ''Space One'', s_open_result_days = Some 7\<rparr>],
      spaces_auto_increment = 2,
      spaces_default_open_result_days = Some 7,
      participants =
        [\<lparr>p_id = 1, p_uuid = ''00000000000040008000000000000000'', p_organization_id = 42,
          p_space_id = 1, p_participant_code = ''P1'', p_participant_user_code = ''U1'',
          p_participant_name = ''Ann'', p_result_closed_at = ''2024-01-08 09:30:00.000000''\<rparr>],
      participants_auto_increment = 2,
      face_auth_logs = []\<rparr>"

definition example_conn :: "nat option \<Rightarrow> connection" where
  "example_conn n = \<lparr>db = example_db, statements_left = n\<rparr>"

definition example_space :: space where
  "example_space =
     \<lparr>s_id = 1, s_organization_id = 42, s_space_code = ''S1'',
      s_space_name = ''Space One'', s_open_result_days = Some 7\<rparr>"

definition example_now :: datetime where
  "example_now =
     \<lparr>year = 2024, month = 1, day = 1, hour = 0, minute = 0, second = 0, microsecond = 0\<rparr>"

definition example_reason :: pyval where
  "example_reason =
     PDict [(PStr ''why'',
             PStr [CHR 0x22, CHR ''a'', CHR 0x5C, CHR 0x0A, CHR 0x0D, CHR 0x09, CHR 0x08,
                   CHR 0x0C, CHR 0x01, CHR 0x7F, CHR 0xE9, CHR '' '', CHR ''/'']),
            (PInt (- 3), PList [PNone, PBool True, PFloat ''0.75'', PTuple [PInt 12]])]"

definition example_reason_json :: string where
  "example_reason_json =
     ''{'' @ [CHR 0x22] @ ''why'' @ [CHR 0x22] @ '': '' @ [CHR 0x22] @ [CHR 0x5C] @ [CHR 0x22]
     @ ''a'' @ [CHR 0x5C] @ [CHR 0x5C] @ [CHR 0x5C] @ ''n'' @ [CHR 0x5C] @ ''r'' @ [CHR 0x5C]
     @ ''t'' @ [CHR 0x5C] @ ''b'' @ [CHR 0x5C] @ ''f'' @ [CHR 0x5C] @ ''u0001'' @ [CHR 0x5C]
     @ ''u007f'' @ [CHR 0x5C] @ ''u00e9 /'' @ [CHR 0x22] @ '', '' @ [CHR 0x22] @ ''-3''
     @ [CHR 0x22] @ '': [null, true, 0.75, [12]]}''"

definition example_logs :: pyval where
  "example_logs =
     PDict [(PBool False, PDict []), (PFloat ''nan'', PFloat ''-inf''),
            (PStr ''n'', PList [PList [], PDict [(PStr ''deep'', PList [PInt 1])]])]"

definition example_logs_json :: string where
  "example_logs_json =
     ''{'' @ [CHR 0x22] @ ''false'' @ [CHR 0x22] @ '': {}, '' @ [CHR 0x22] @ ''NaN''
     @ [CHR 0x22] @ '': -Infinity, '' @ [CHR 0x22] @ ''n'' @ [CHR 0x22] @ '': [[], {''
     @ [CHR 0x22] @ ''deep'' @ [CHR 0x22] @ '': [1]}]}''"

section \<open>Properties\<close>

subsection \<open>Statements on a connection\<close>

lemma spend_db_update [simp]: "spend m (conn\<lparr>db := d\<rparr>) = (spend m conn)\<lparr>db := d\<rparr>"
  by (simp add: spend_def)

lemma spend_spend [simp]: "spend m (spend n conn) = spend (n + m) conn"
  by (cases "statements_left conn") (simp_all add: spend_def)

lemma db_spend [simp]: "db (spend n conn) = db conn"
  by (simp add: spend_def)

lemma answers_db_update [simp]: "answers n (conn\<lparr>db := d\<rparr>) = answers n conn"
  by (simp add: answers_def)

lemma answers_spend: "answers (n + m) conn \<Longrightarrow> answers n (spend m conn)"
  by (auto simp: answers_def spend_def split: option.splits)

lemma answers_mono: "answers n conn \<Longrightarrow> m \<le> n \<Longrightarrow> answers m conn"
  by (auto simp: answers_def split: option.splits)

lemma execute_answers:
  assumes "answers (Suc n) conn"
  shows "execute conn stmt
           = (Inr (fst (stmt (db conn))), (spend (Suc 0) conn)\<lparr>db := snd (stmt (db conn))\<rparr>)"
  using assms
  by (auto simp: execute_def answers_def spend_def split: option.splits nat.splits prod.splits)

lemma execute_select:
  assumes "answers (Suc n) conn" and "snd (stmt (db conn)) = db conn"
  shows "execute conn stmt = (Inr (fst (stmt (db conn))), spend (Suc 0) conn)"
  using assms
  by (auto simp: execute_def answers_def spend_def split: option.splits nat.splits prod.splits)

lemma execute_broken:
  "statements_left conn = Some 0 \<Longrightarrow> execute conn stmt = (Inl MySQLError, conn)"
  by (simp add: execute_def)

lemma find_append:
  "find P (xs @ ys) = (case find P xs of None \<Rightarrow> find P ys | Some x \<Rightarrow> Some x)"
  by (induction xs) auto

lemma find_fresh_key:
  assumes "\<forall>r \<in> set xs. key r < (n::int)" and "key x = n"
  shows "find (\<lambda>r. key r = n) (xs @ [x]) = Some x"
proof -
  have "find (\<lambda>r. key r = n) xs = None"
    using assms(1) by (auto simp: find_None_iff)
  then show ?thesis using assms(2) by (simp add: find_append)
qed

lemma get_or_create_space_hit:
  assumes "answers (Suc n) conn"
    and "find (\<lambda>r. s_organization_id r = organization_id \<and> s_space_code r = space_code)
           (spaces (db conn)) = Some space"
  shows "get_or_create_space conn organization_id space_code space_name
           = (Inr (Some space), spend 1 conn)"
  using assms(2)
  by (simp add: get_or_create_space_def execute_select [OF assms(1)] select_space_def)

lemma get_or_create_participant_hit:
  assumes "answers (Suc n) conn"
    and "find (\<lambda>r. p_organization_id r = organization_id \<and> p_space_id r = s_id space
                  \<and> p_participant_code r = participant_code)
           (participants (db conn)) = Some participant"
  shows "get_or_create_participant conn organization_id space participant_code
           participant_user_code participant_name rng now
           = Some (Inr (Some participant), spend 1 conn)"
  using assms(2)
  by (simp add: get_or_create_participant_def execute_select [OF assms(1)]
      select_participant_def)

lemma get_or_create_space_miss:
  assumes wf: "wf_database (db conn)"
    and a: "answers 3 conn"
    and miss: "find (\<lambda>r. s_organization_id r = organization_id \<and> s_space_code r = space_code)
                 (spaces (db conn)) = None"
  shows "get_or_create_space conn organization_id space_code space_name
           = (Inr (Some \<lparr>s_id = spaces_auto_increment (db conn),
                         s_organization_id = organization_id, s_space_code = space_code,
                         s_space_name = space_name,
                         s_open_result_days = spaces_default_open_result_days (db conn)\<rparr>),
              (spend 3 conn)\<lparr>db := snd (insert_space organization_id space_code space_name (db conn))\<rparr>)"
proof -
  let ?new = "\<lparr>s_id = spaces_auto_increment (db conn),
                         s_organization_id = organization_id, s_space_code = space_code,
                         s_space_name = space_name,
                         s_open_result_days = spaces_default_open_result_days (db conn)\<rparr>"
  let ?d = "snd (insert_space organization_id space_code space_name (db conn))"
  let ?c1 = "spend (Suc 0) conn"
  let ?c2 = "(spend (Suc (Suc 0)) conn)\<lparr>db := ?d\<rparr>"
  have a3: "answers (Suc 2) conn" using a by (simp add: numeral_3_eq_3)
  have a2: "answers (Suc 1) ?c1"
    using a by (auto simp: answers_def spend_def split: option.splits)
  have a1: "answers (Suc 0) ?c2"
    using a by (auto simp: answers_def spend_def split: option.splits)
  have e1: "execute conn (select_space organization_id space_code) = (Inr None, ?c1)"
    using miss by (simp add: execute_select [OF a3] select_space_def)
  have e2: "execute ?c1 (insert_space organization_id space_code space_name)
              = (Inr (spaces_auto_increment (db conn)), ?c2)"
    by (simp add: execute_answers [OF a2] insert_space_def)
  have reread: "find (\<lambda>r. s_id r = spaces_auto_increment (db conn)) (spaces ?d) = Some ?new"
    using wf by (simp add: insert_space_def wf_database_def find_fresh_key)
  have e3: "execute ?c2 (select_space_by_id (spaces_auto_increment (db conn)))
            = (Inr (Some ?new), (spend 3 conn)\<lparr>db := ?d\<rparr>)"
    using reread by (simp add: execute_select [OF a1] select_space_by_id_def numeral_3_eq_3)
  show ?thesis
    by (simp add: get_or_create_space_def e1 e2 e3)
qed

subsection \<open>Resolution of a key that is already stored\<close>

text \<open>
  Claim C1. When the table holds a row for the natural key, \<open>get_or_create_space\<close>
  (key \<open>organization_id\<close>, \<open>space_code\<close>) and \<open>get_or_create_participant\<close> (key
  \<open>organization_id\<close>, \<open>space['id']\<close>, \<open>participant_code\<close>) return that row on the first
  call and again on a second call, whatever name the second call supplies: the same
  \<open>id\<close>, the stored name, and a database that is the one before the calls, so nothing
  was inserted.
\<close>

theorem get_or_create_hit_idempotent:
  assumes "answers 2 conn"
  shows "(find (\<lambda>r. s_organization_id r = organization_id \<and> s_space_code r = space_code)
            (spaces (db conn)) = Some space \<longrightarrow>
          get_or_create_space conn organization_id space_code space_name
            = (Inr (Some space), spend 1 conn) \<and>
          get_or_create_space (spend 1 conn) organization_id space_code other_space_name
            = (Inr (Some space), spend 2 conn) \<and>
          db (spend 2 conn) = db conn)
       \<and> (find (\<lambda>r. p_organization_id r = organization_id \<and> p_space_id r = s_id sp
                     \<and> p_participant_code r = participant_code)
            (participants (db conn)) = Some participant \<longrightarrow>
          get_or_create_participant conn organization_id sp participant_code
              participant_user_code participant_name rng now
            = Some (Inr (Some participant), spend 1 conn) \<and>
          get_or_create_participant (spend 1 conn) organization_id sp participant_code
              other_user_code other_name other_rng other_now
            = Some (Inr (Some participant), spend 2 conn) \<and>
          db (spend 2 conn) = db conn)"
proof -
  have a1: "answers (Suc 1) conn"
    using assms by (simp add: answers_def split: option.splits)
  have a2: "answers (Suc 0) (spend 1 conn)"
    using assms by (auto simp: answers_def spend_def split: option.splits)
  show ?thesis
    using get_or_create_space_hit [OF a1] get_or_create_space_hit [OF a2]
      get_or_create_participant_hit [OF a1] get_or_create_participant_hit [OF a2]
    by (simp add: numeral_2_eq_2)
qed


theorem get_or_create_hit_idempotent_witness:
  "answers 2 (example_conn (Some 2))
   \<and> get_or_create_space (example_conn (Some 2)) 42 ''S1'' ''Space One''
       = (Inr (Some \<lparr>s_id = 1, s_organization_id = 42, s_space_code = ''S1'',
                     s_space_name = ''Space One'', s_open_result_days = Some 7\<rparr>),
          example_conn (Some 1))
   \<and> get_or_create_space (example_conn (Some 1)) 42 ''S1'' ''Renamed''
       = (Inr (Some \<lparr>s_id = 1, s_organization_id = 42, s_space_code = ''S1'',
                     s_space_name = ''Space One'', s_open_result_days = Some 7\<rparr>),
          example_conn (Some 0))
   \<and> get_or_create_participant (example_conn (Some 1)) 42
         \<lparr>s_id = 1, s_organization_id = 42, s_space_code = ''S1'',
          s_space_name = ''Space One'', s_open_result_days = Some 7\<rparr>
         ''P1'' ''U2'' ''Bob'' (sconst 1)
         \<lparr>year = 2024, month = 1, day = 1, hour = 0, minute = 0, second = 0, microsecond = 0\<rparr>
       = Some (Inr (Some \<lparr>p_id = 1, p_uuid = ''00000000000040008000000000000000'',
                           p_organization_id = 42, p_space_id = 1, p_participant_code = ''P1'',
                           p_participant_user_code = ''U1'', p_participant_name = ''Ann'',
                           p_result_closed_at = ''2024-01-08 09:30:00.000000''\<rparr>),
               example_conn (Some 0))"
proof -
  have h: "answers 2 (example_conn (Some 2))"
    by (simp add: answers_def example_conn_def)
  note get_or_create_hit_idempotent
    [OF h, where organization_id = 42 and space_code = "''S1''"
      and space_name = "''Space One''" and other_space_name = "''Renamed''"
      and space = "\<lparr>s_id = 1, s_organization_id = 42, s_space_code = ''S1'',
          s_space_name = ''Space One'', s_open_result_days = Some 7\<rparr>"
      and sp = "\<lparr>s_id = 1, s_organization_id = 42, s_space_code = ''S1'',
          s_space_name = ''Space One'', s_open_result_days = Some 7\<rparr>"
      and participant_code = "''P1''"
      and participant = "\<lparr>p_id = 1, p_uuid = ''00000000000040008000000000000000'',
                           p_organization_id = 42, p_space_id = 1, p_participant_code = ''P1'',
                           p_participant_user_code = ''U1'', p_participant_name = ''Ann'',
                           p_result_closed_at = ''2024-01-08 09:30:00.000000''\<rparr>"
      and other_user_code = "''U2''" and other_name = "''Bob''" and other_rng = "sconst 1"
      and other_now = "\<lparr>year = 2024, month = 1, day = 1, hour = 0, minute = 0, second = 0,
                         microsecond = 0\<rparr>"]
  then
  show ?thesis
    using h by (simp add: example_conn_def example_db_def spend_def)
qed

text \<open>
  Claim C9. On the hit path both functions send one \<open>SELECT\<close> and nothing else: the
  row found is the result and the database stays as it was. \<open>get_or_create_space\<close>
  has neither a random source nor a clock among its inputs, and the result of
  \<open>get_or_create_participant\<close> is the same for any other random stream and any other
  clock reading, so neither is consumed.
\<close>

theorem hit_path_deterministic:
  assumes "answers 1 conn"
  shows "(find (\<lambda>r. s_organization_id r = organization_id \<and> s_space_code r = space_code)
            (spaces (db conn)) = Some space \<longrightarrow>
          get_or_create_space conn organization_id space_code space_name
            = (Inr (Some space), spend 1 conn) \<and>
          db (snd (get_or_create_space conn organization_id space_code space_name)) = db conn)
       \<and> (find (\<lambda>r. p_organization_id r = organization_id \<and> p_space_id r = s_id sp
                     \<and> p_participant_code r = participant_code)
            (participants (db conn)) = Some participant \<longrightarrow>
          get_or_create_participant conn organization_id sp participant_code
              participant_user_code participant_name rng now
            = Some (Inr (Some participant), spend 1 conn) \<and>
          get_or_create_participant conn organization_id sp participant_code
              participant_user_code participant_name other_rng other_now
            = get_or_create_participant conn organization_id sp participant_code
                participant_user_code participant_name rng now \<and>
          db (spend 1 conn) = db conn)"
proof -
  have a: "answers (Suc 0) conn" using assms by simp
  show ?thesis
    using get_or_create_space_hit [OF a] get_or_create_participant_hit [OF a]
    by simp
qed

theorem hit_path_deterministic_witness:
  "answers 1 (example_conn None)
   \<and> get_or_create_space (example_conn None) 42 ''S1'' ''Space One''
       = (Inr (Some \<lparr>s_id = 1, s_organization_id = 42, s_space_code = ''S1'',
                     s_space_name = ''Space One'', s_open_result_days = Some 7\<rparr>),
          example_conn None)
   \<and> get_or_create_participant (example_conn None) 42
         \<lparr>s_id = 1, s_organization_id = 42, s_space_code = ''S1'',
          s_space_name = ''Space One'', s_open_result_days = Some 7\<rparr>
         ''P1'' ''U1'' ''Ann'' (sconst 5)
         \<lparr>year = 2030, month = 6, day = 15, hour = 12, minute = 0, second = 0, microsecond = 1\<rparr>
     = get_or_create_participant (example_conn None) 42
         \<lparr>s_id = 1, s_organization_id = 42, s_space_code = ''S1'',
          s_space_name = ''Space One'', s_open_result_days = Some 7\<rparr>
         ''P1'' ''U1'' ''Ann'' (sconst 0)
         \<lparr>year = 2024, month = 1, day = 1, hour = 0, minute = 0, second = 0, microsecond = 0\<rparr>"
proof -
  have h: "answers 1 (example_conn None)"
    by (simp add: answers_def example_conn_def)
  note hit_path_deterministic
    [OF h, where organization_id = 42 and space_code = "''S1''"
      and space_name = "''Space One''"
      and space = "\<lparr>s_id = 1, s_organization_id = 42, s_space_code = ''S1'',
          s_space_name = ''Space One'', s_open_result_days = Some 7\<rparr>"
      and sp = "\<lparr>s_id = 1, s_organization_id = 42, s_space_code = ''S1'',
          s_space_name = ''Space One'', s_open_result_days = Some 7\<rparr>"
      and participant_code = "''P1''"
      and participant = "\<lparr>p_id = 1, p_uuid = ''00000000000040008000000000000000'',
                           p_organization_id = 42, p_space_id = 1, p_participant_code = ''P1'',
                           p_participant_user_code = ''U1'', p_participant_name = ''Ann'',
                           p_result_closed_at = ''2024-01-08 09:30:00.000000''\<rparr>"
      and participant_user_code = "''U1''" and participant_name = "''Ann''"
      and rng = "sconst 0"
      and now = "\<lparr>year = 2024, month = 1, day = 1, hour = 0, minute = 0, second = 0,
                         microsecond = 0\<rparr>"
      and other_rng = "sconst 5"
      and other_now = "\<lparr>year = 2030, month = 6, day = 15, hour = 12, minute = 0, second = 0,
                         microsecond = 1\<rparr>"]
  then show ?thesis
    using h by (simp add: example_conn_def example_db_def spend_def)
qed

subsection \<open>Creation of a space\<close>

text \<open>
  Claim C5. When no row has the key \<open>(organization_id, space_code)\<close>,
  \<open>get_or_create_space\<close> sends three statements: the lookup, the \<open>INSERT\<close> of a row
  with the supplied \<open>space_name\<close>, and a \<open>SELECT\<close> by \<open>cursor.lastrowid\<close> on the
  database as the insert left it. What it returns is the answer of that last \<open>SELECT\<close>:
  the new row with the key and the \<open>open_result_days\<close> the store assigned, which were
  not among the values inserted.
\<close>

theorem get_or_create_space_inserts_then_rereads:
  assumes "wf_database (db conn)"
    and "answers 3 conn"
    and "find (\<lambda>r. s_organization_id r = organization_id \<and> s_space_code r = space_code)
           (spaces (db conn)) = None"
  shows "get_or_create_space conn organization_id space_code space_name
           = (Inr (fst (select_space_by_id
                          (fst (insert_space organization_id space_code space_name (db conn)))
                          (snd (insert_space organization_id space_code space_name (db conn))))),
              (spend 3 conn)
                \<lparr>db := snd (insert_space organization_id space_code space_name (db conn))\<rparr>)
         \<and> fst (get_or_create_space conn organization_id space_code space_name)
           = Inr (Some \<lparr>s_id = spaces_auto_increment (db conn),
                        s_organization_id = organization_id, s_space_code = space_code,
                        s_space_name = space_name,
                        s_open_result_days = spaces_default_open_result_days (db conn)\<rparr>)
         \<and> spaces (db (snd (get_or_create_space conn organization_id space_code space_name)))
           = spaces (db conn) @
               [\<lparr>s_id = spaces_auto_increment (db conn),
                 s_organization_id = organization_id, s_space_code = space_code,
                 s_space_name = space_name,
                 s_open_result_days = spaces_default_open_result_days (db conn)\<rparr>]"
proof -
  have reread: "find (\<lambda>r. s_id r = spaces_auto_increment (db conn))
                  (spaces (snd (insert_space organization_id space_code space_name (db conn))))
                = Some \<lparr>s_id = spaces_auto_increment (db conn),
                        s_organization_id = organization_id, s_space_code = space_code,
                        s_space_name = space_name,
                        s_open_result_days = spaces_default_open_result_days (db conn)\<rparr>"
    using assms(1) by (simp add: insert_space_def wf_database_def find_fresh_key)
  show ?thesis
    using reread
    by (simp add: get_or_create_space_miss [OF assms] select_space_by_id_def)
      (simp add: insert_space_def)
qed

theorem get_or_create_space_inserts_then_rereads_witness:
  "wf_database (db (example_conn None)) \<and> answers 3 (example_conn None)
   \<and> find (\<lambda>r. s_organization_id r = 42 \<and> s_space_code r = ''S2'')
        (spaces (db (example_conn None))) = None
   \<and> fst (get_or_create_space (example_conn None) 42 ''S2'' ''Space Two'')
     = Inr (Some \<lparr>s_id = 2, s_organization_id = 42, s_space_code = ''S2'',
                  s_space_name = ''Space Two'', s_open_result_days = Some 7\<rparr>)"
proof -
  have h1: "wf_database (db (example_conn None))"
    by (simp add: wf_database_def example_conn_def example_db_def)
  have h2: "answers 3 (example_conn None)"
    by (simp add: answers_def example_conn_def)
  have h3: "find (\<lambda>r. s_organization_id r = 42 \<and> s_space_code r = ''S2'')
        (spaces (db (example_conn None))) = None"
    by (simp add: example_conn_def example_db_def)
  from get_or_create_space_inserts_then_rereads
         [OF h1 h2 h3, of "''Space Two''", THEN conjunct2, THEN conjunct1]
  show ?thesis
    using h1 h2 h3 by (simp add: example_conn_def example_db_def)
qed

subsection \<open>The organization application lookup\<close>

text \<open>
  Claim C8. \<open>get_organization_app\<close> looks the identifier up with every hyphen taken
  out and the other characters kept in order. On a connection that answers, the result
  is a normal return: the row found, or \<open>None\<close> when no row has that \<open>uuid\<close>; absence
  is never an error.
\<close>

theorem get_organization_app_strips_hyphens:
  assumes "answers 1 conn"
  shows "get_organization_app conn uuid
           = (Inr (find (\<lambda>r. oa_uuid r = filter (\<lambda>c. c \<noteq> CHR ''-'') uuid)
                     (organization_apps (db conn))),
              spend 1 conn)
         \<and> ((\<forall>r \<in> set (organization_apps (db conn)).
                oa_uuid r \<noteq> filter (\<lambda>c. c \<noteq> CHR ''-'') uuid)
              \<longrightarrow> fst (get_organization_app conn uuid) = Inr None)"
proof -
  have a: "answers (Suc 0) conn" using assms by simp
  have eq: "get_organization_app conn uuid
           = (Inr (find (\<lambda>r. oa_uuid r = filter (\<lambda>c. c \<noteq> CHR ''-'') uuid)
                     (organization_apps (db conn))),
              spend 1 conn)"
    by (simp add: get_organization_app_def execute_select [OF a] select_organization_app_def
        remove_hyphens_def)
  show ?thesis
    by (auto simp: eq find_None_iff)
qed

theorem get_organization_app_strips_hyphens_witness:
  "answers 1 (example_conn (Some 1))
   \<and> get_organization_app (example_conn (Some 1)) ''0f8fad5b-d9cb-469f-a165-70867728950e''
       = (Inr (Some \<lparr>oa_uuid = ''0f8fad5bd9cb469fa16570867728950e'',
                     oa_columns = [(''id'', PInt 42), (''name'', PStr ''Example Org'')]\<rparr>),
          example_conn (Some 0))
   \<and> fst (get_organization_app (example_conn (Some 1)) ''0f8fad5b-0000'') = Inr None"
proof -
  have h: "answers 1 (example_conn (Some 1))"
    by (simp add: answers_def example_conn_def)
  have absent: "\<forall>r \<in> set (organization_apps (db (example_conn (Some 1)))).
         oa_uuid r \<noteq> filter (\<lambda>c. c \<noteq> CHR ''-'') ''0f8fad5b-0000''"
    by (simp add: example_conn_def example_db_def)
  from get_organization_app_strips_hyphens
         [OF h, of "''0f8fad5b-d9cb-469f-a165-70867728950e''", THEN conjunct1]
       get_organization_app_strips_hyphens
         [OF h, of "''0f8fad5b-0000''", THEN conjunct2, THEN mp, OF absent]
  show ?thesis
    using h by (simp add: example_conn_def example_db_def spend_def)
qed

subsection \<open>The parameter store\<close>

text \<open>
  Claim C7. \<open>get_parameter\<close> tells the failures of the parameter store apart. For a
  key the store reports as not found it returns the default value and hands one warning
  to the logger; any other exception leaves the function as it was raised, with nothing
  logged; and on success the result is the stored value.
\<close>

theorem get_parameter_outcomes:
  "(\<forall>k. ssm k = Inl ParameterNotFound \<longrightarrow>
      get_parameter (Inr ssm) logger k default_value
        = (Inr default_value,
           logger @ [\<lparr>levelname = ''WARNING'',
                      msg = ''Parameter {'' @ k @ ''} not found. Returning default value.''\<rparr>]))
   \<and> (\<forall>k e. ssm k = Inl e \<and> e \<noteq> ParameterNotFound \<longrightarrow>
      get_parameter (Inr ssm) logger k default_value = (Inl e, logger))
   \<and> (\<forall>k v. ssm k = Inr v \<longrightarrow>
      get_parameter (Inr ssm) logger k default_value = (Inr (PStr v), logger))"
  by (auto simp: get_parameter_def split: sum.splits ssm_exception.splits)

theorem get_parameter_outcomes_witness:
  "get_parameter
     (Inr (\<lambda>k. if k = ''/app/key'' then Inr ''secret''
               else if k = ''/app/none'' then Inl ParameterNotFound
               else Inl (OtherException ''AccessDeniedException'')))
     [] ''/app/none'' (PStr ''fallback'')
   = (Inr (PStr ''fallback''),
      [\<lparr>levelname = ''WARNING'',
        msg = ''Parameter {/app/none} not found. Returning default value.''\<rparr>])
   \<and> get_parameter
     (Inr (\<lambda>k. if k = ''/app/key'' then Inr ''secret''
               else if k = ''/app/none'' then Inl ParameterNotFound
               else Inl (OtherException ''AccessDeniedException'')))
     [] ''/app/denied'' (PStr ''fallback'')
   = (Inl (OtherException ''AccessDeniedException''), [])
   \<and> get_parameter
     (Inr (\<lambda>k. if k = ''/app/key'' then Inr ''secret''
               else if k = ''/app/none'' then Inl ParameterNotFound
               else Inl (OtherException ''AccessDeniedException'')))
     [] ''/app/key'' (PStr ''fallback'')
   = (Inr (PStr ''secret''), [])"
proof -
  let ?ssm = "\<lambda>k. if k = ''/app/key'' then Inr ''secret''
               else if k = ''/app/none'' then Inl ParameterNotFound
               else Inl (OtherException ''AccessDeniedException'')"
  note t = get_parameter_outcomes [of ?ssm "[]" "PStr ''fallback''"]
  have n: "?ssm ''/app/none'' = Inl ParameterNotFound" by simp
  have d: "?ssm ''/app/denied'' = Inl (OtherException ''AccessDeniedException'')
             \<and> OtherException ''AccessDeniedException'' \<noteq> ParameterNotFound" by simp
  have k: "?ssm ''/app/key'' = Inr ''secret''" by simp
  from t [THEN conjunct1, rule_format, OF n]
       t [THEN conjunct2, THEN conjunct1, rule_format, OF d]
       t [THEN conjunct2, THEN conjunct2, rule_format, OF k]
  show ?thesis by simp
qed

subsection \<open>The loop that allocates an identifier\<close>

lemma while_exist_collision:
  assumes "answers (Suc n) conn" and "collides (db conn) (candidate rng 0)"
  shows "while_exist conn organization_id space participant_code participant_user_code
           participant_name rng now
         = while_exist (spend (Suc 0) conn) organization_id space participant_code
             participant_user_code participant_name (stl rng) now"
  using assms(2)
  by (subst while_exist.simps)
    (auto simp: execute_select [OF assms(1)] select_participant_by_uuid_def collides_def
      candidate_def)

lemma while_exist_fresh:
  assumes wf: "wf_database (db conn)"
    and a: "answers 3 conn"
    and fresh: "\<not> collides (db conn) (candidate rng 0)"
    and days: "timedelta (s_open_result_days space) = Inr days"
    and add: "datetime_add now days = Inr result_closed_at"
  shows "while_exist conn organization_id space participant_code participant_user_code
           participant_name rng now
         = Some (Inr (Some (new_participant (db conn) (candidate rng 0) organization_id space
                              participant_code participant_user_code participant_name
                              (strftime result_closed_at))),
                 (spend 3 conn)
                   \<lparr>db := (db conn)
                      \<lparr>participants := participants (db conn) @
                         [new_participant (db conn) (candidate rng 0) organization_id space
                            participant_code participant_user_code participant_name
                            (strftime result_closed_at)],
                       participants_auto_increment := participants_auto_increment (db conn) + 1\<rparr>\<rparr>)"
proof -
  let ?u = "hex (uuid4 (shd rng))"
  let ?new = "new_participant (db conn) (candidate rng 0) organization_id space
                              participant_code participant_user_code participant_name
                              (strftime result_closed_at)"
  let ?d = "(db conn)\<lparr>participants := participants (db conn) @ [?new],
                       participants_auto_increment := participants_auto_increment (db conn) + 1\<rparr>"
  let ?c1 = "spend (Suc 0) conn"
  let ?c2 = "(spend (Suc (Suc 0)) conn)\<lparr>db := ?d\<rparr>"
  have a3: "answers (Suc 2) conn"
    using a by (simp add: answers_def split: option.splits)
  have a2: "answers (Suc 1) ?c1"
    using a by (auto simp: answers_def spend_def split: option.splits)
  have a1: "answers (Suc 0) ?c2"
    using a by (auto simp: answers_def spend_def split: option.splits)
  have e1: "execute conn (select_participant_by_uuid ?u) = (Inr None, ?c1)"
    using fresh
    by (simp add: execute_select [OF a3] select_participant_by_uuid_def collides_def
        candidate_def)
  have e2: "execute ?c1 (insert_participant ?u organization_id (s_id space) participant_code
                           participant_user_code participant_name (strftime result_closed_at))
              = (Inr (participants_auto_increment (db conn)), ?c2)"
    by (simp add: execute_answers [OF a2] insert_participant_def new_participant_def
        candidate_def)
  have reread: "find (\<lambda>r. p_id r = participants_auto_increment (db conn)) (participants ?d)
                  = Some ?new"
    using wf by (simp add: wf_database_def find_fresh_key new_participant_def)
  have e3: "execute ?c2 (select_participant_by_id (participants_auto_increment (db conn)))
            = (Inr (Some ?new), (spend 3 conn)\<lparr>db := ?d\<rparr>)"
    using reread
    by (simp add: execute_select [OF a1] select_participant_by_id_def numeral_3_eq_3)
  show ?thesis
    by (subst while_exist.simps) (simp add: e1 days add e2 e3)
qed


lemma candidate_stl: "candidate (stl rng) i = candidate rng (Suc i)"
  by (simp add: candidate_def)

lemma while_exist_skips_collisions:
  assumes wf: "wf_database (db conn)"
    and a: "answers (k + 3) conn"
    and coll: "\<forall>i<k. collides (db conn) (candidate rng i)"
    and fresh: "\<not> collides (db conn) (candidate rng k)"
    and days: "timedelta (s_open_result_days space) = Inr days"
    and add: "datetime_add now days = Inr result_closed_at"
  shows "while_exist conn organization_id space participant_code participant_user_code
           participant_name rng now
         = Some (Inr (Some (new_participant (db conn) (candidate rng k) organization_id space
                              participant_code participant_user_code participant_name
                              (strftime result_closed_at))),
                 (spend (k + 3) conn)
                   \<lparr>db := (db conn)
                      \<lparr>participants := participants (db conn) @
                         [new_participant (db conn) (candidate rng k) organization_id space
                            participant_code participant_user_code participant_name
                            (strftime result_closed_at)],
                       participants_auto_increment := participants_auto_increment (db conn) + 1\<rparr>\<rparr>)"
  using wf a coll fresh
proof (induction k arbitrary: conn rng)
  case 0
  then show ?case
    using while_exist_fresh [OF _ _ _ days add, of conn rng] by simp
next
  case (Suc k)
  have a1: "answers (Suc (k + 3)) conn"
    using Suc.prems(2) by simp
  have first: "collides (db conn) (candidate rng 0)"
    using Suc.prems(3) by simp
  have a2: "answers (k + 3) (spend (Suc 0) conn)"
    using Suc.prems(2) by (auto simp: answers_def spend_def split: option.splits)
  have rest: "\<forall>i<k. collides (db (spend (Suc 0) conn)) (candidate (stl rng) i)"
    using Suc.prems(3) by (simp add: candidate_stl)
  have fr: "\<not> collides (db (spend (Suc 0) conn)) (candidate (stl rng) k)"
    using Suc.prems(4) by (simp add: candidate_stl)
  have wf': "wf_database (db (spend (Suc 0) conn))"
    using Suc.prems(1) by simp
  show ?case
    by (simp add: while_exist_collision [OF a1 first] Suc.IH [OF wf' a2 rest fr]
        candidate_stl)
qed

lemma while_exist_returns_only_if_fresh:
  assumes r: "while_exist conn organization_id space participant_code participant_user_code
             participant_name rng now = Some y"
  shows "statements_left conn = None \<longrightarrow> (\<exists>k. \<not> collides (db conn) (candidate rng k))"
proof (rule while_exist.raw_induct
    [where P = "\<lambda>conn organization_id space participant_code participant_user_code
                  participant_name rng now y.
                  statements_left conn = None \<longrightarrow> (\<exists>k. \<not> collides (db conn) (candidate rng k))",
      OF _ r], goal_cases)
  case (1 f conn organization_id space participant_code participant_user_code
      participant_name rng now y)
  show ?case
  proof
    assume never: "statements_left conn = None"
    show "\<exists>k. \<not> collides (db conn) (candidate rng k)"
    proof (cases "collides (db conn) (candidate rng 0)")
      case False
      then show ?thesis by blast
    next
      case True
      have a: "answers (Suc 0) conn"
        using never by (simp add: answers_def)
      have sp: "spend (Suc 0) conn = conn"
        using never by (simp add: spend_def)
      from True "1"(2)
      have "f conn organization_id space participant_code participant_user_code
              participant_name (stl rng) now = Some y"
        by (auto simp: execute_select [OF a] sp select_participant_by_uuid_def collides_def
            candidate_def)
      from "1"(1) [OF this] never
      obtain k where "\<not> collides (db conn) (candidate (stl rng) k)" by blast
      then show ?thesis
        by (auto simp: candidate_stl)
    qed
  qed
qed

lemma get_or_create_participant_miss:
  assumes "answers (Suc n) conn"
    and "find (\<lambda>r. p_organization_id r = organization_id \<and> p_space_id r = s_id space
                  \<and> p_participant_code r = participant_code)
           (participants (db conn)) = None"
  shows "get_or_create_participant conn organization_id space participant_code
           participant_user_code participant_name rng now
         = while_exist (spend (Suc 0) conn) organization_id space participant_code
             participant_user_code participant_name rng now"
  using assms(2)
  by (simp add: get_or_create_participant_def execute_select [OF assms(1)]
      select_participant_def)

lemma length_hex_digits: "length (hex_digits n w) = n"
  by (induction n arbitrary: w) simp_all

lemma digit_char_hex: "n < 16 \<Longrightarrow> digit_char n \<in> set ''0123456789abcdef''"
  unfolding digit_char_def by (rule nth_mem) simp

lemma unat_low_nibble: "unat ((w :: 128 word) AND 15) < 16"
proof -
  have "unat (w AND 15) \<le> unat (15 :: 128 word)"
    by (rule word_and_le1 [THEN word_le_nat_alt [THEN iffD1]])
  then show ?thesis by simp
qed

lemma set_hex_digits: "set (hex_digits n w) \<subseteq> set ''0123456789abcdef''"
proof (induction n arbitrary: w)
  case 0
  then show ?case by simp
next
  case (Suc n)
  have "digit_char (unat (w AND 15)) \<in> set ''0123456789abcdef''"
    by (rule digit_char_hex [OF unat_low_nibble])
  with Suc.IH [of "drop_bit 4 w"] show ?case
    by auto
qed

lemma hex_format: "length (hex w) = 32 \<and> set (hex w) \<subseteq> set ''0123456789abcdef''"
  using set_hex_digits [of 32 w] by (simp add: hex_def length_hex_digits)

lemma hex_no_separator: "CHR ''-'' \<notin> set (hex w)"
proof
  assume "CHR ''-'' \<in> set (hex w)"
  then have "CHR ''-'' \<in> set ''0123456789abcdef''"
    using hex_format [of w] by blast
  then show False by simp
qed

lemma hex_uuid4_0: "hex (uuid4 0) = ''00000000000040008000000000000000''"
  by code_simp

lemma hex_uuid4_1: "hex (uuid4 1) = ''00000000000040008000000000000001''"
  by code_simp


lemma get_or_create_participant_created:
  assumes wf: "wf_database (db conn)"
    and a: "answers (k + 4) conn"
    and miss: "find (\<lambda>r. p_organization_id r = organization_id \<and> p_space_id r = s_id space
                       \<and> p_participant_code r = participant_code)
                 (participants (db conn)) = None"
    and coll: "\<forall>i<k. collides (db conn) (candidate rng i)"
    and fresh: "\<not> collides (db conn) (candidate rng k)"
    and days: "timedelta (s_open_result_days space) = Inr days"
    and add: "datetime_add now days = Inr result_closed_at"
  shows "get_or_create_participant conn organization_id space participant_code
           participant_user_code participant_name rng now
         = Some (Inr (Some (new_participant (db conn) (candidate rng k) organization_id space
                              participant_code participant_user_code participant_name
                              (strftime result_closed_at))),
                 (spend (k + 4) conn)
                   \<lparr>db := (db conn)
                      \<lparr>participants := participants (db conn) @
                         [new_participant (db conn) (candidate rng k) organization_id space
                            participant_code participant_user_code participant_name
                            (strftime result_closed_at)],
                       participants_auto_increment := participants_auto_increment (db conn) + 1\<rparr>\<rparr>)"
proof -
  have a1: "answers (Suc (k + 3)) conn"
    using a by (simp add: answers_def split: option.splits)
  have a2: "answers (k + 3) (spend (Suc 0) conn)"
    using a by (auto simp: answers_def spend_def split: option.splits)
  have wf': "wf_database (db (spend (Suc 0) conn))"
    using wf by simp
  have coll': "\<forall>i<k. collides (db (spend (Suc 0) conn)) (candidate rng i)"
    using coll by simp
  have fresh': "\<not> collides (db (spend (Suc 0) conn)) (candidate rng k)"
    using fresh by simp
  have n: "Suc 0 + (k + 3) = k + 4" by simp
  show ?thesis
    unfolding get_or_create_participant_miss [OF a1 miss]
      while_exist_skips_collisions [OF wf' a2 coll' fresh' days add]
    by (simp only: spend_spend n db_spend)
qed

text \<open>
  Claim C3. A candidate identifier is \<open>uuid.uuid4().hex\<close>: 32 lower-case hexadecimal
  digits of a 128-bit value, without separators. Each candidate is looked up in the
  \<open>uuid\<close> column of the participants, one \<open>SELECT\<close> per candidate, and the loop goes on
  to the next candidate as long as the lookup finds a row. When the first \<open>k\<close>
  candidates are taken and the next one is not, the function sends \<open>k + 4\<close> statements
  in all and the row it inserts and returns carries exactly that candidate, for which
  the lookup on the database answered no row.
\<close>

theorem allocated_uuid_is_fresh_candidate:
  assumes "wf_database (db conn)"
    and "answers (k + 4) conn"
    and "find (\<lambda>r. p_organization_id r = organization_id \<and> p_space_id r = s_id space
                  \<and> p_participant_code r = participant_code)
           (participants (db conn)) = None"
    and "\<forall>i<k. find (\<lambda>r. p_uuid r = hex (uuid4 (rng !! i))) (participants (db conn)) \<noteq> None"
    and "find (\<lambda>r. p_uuid r = hex (uuid4 (rng !! k))) (participants (db conn)) = None"
    and "timedelta (s_open_result_days space) = Inr days"
    and "datetime_add now days = Inr result_closed_at"
  shows "\<exists>p. get_or_create_participant conn organization_id space participant_code
               participant_user_code participant_name rng now
             = Some (Inr (Some p),
                     (spend (k + 4) conn)
                       \<lparr>db := (db conn)
                          \<lparr>participants := participants (db conn) @ [p],
                           participants_auto_increment :=
                             participants_auto_increment (db conn) + 1\<rparr>\<rparr>)
           \<and> p_uuid p = hex (uuid4 (rng !! k))
           \<and> fst (select_participant_by_uuid (p_uuid p) (db conn)) = None
           \<and> length (p_uuid p) = 32
           \<and> set (p_uuid p) \<subseteq> set ''0123456789abcdef''
           \<and> CHR ''-'' \<notin> set (p_uuid p)"
proof -
  have coll: "\<forall>i<k. collides (db conn) (candidate rng i)"
    using assms(4) by (simp add: collides_def candidate_def)
  have fresh: "\<not> collides (db conn) (candidate rng k)"
    using assms(5) by (simp add: collides_def candidate_def)
  let ?p = "new_participant (db conn) (candidate rng k) organization_id space
              participant_code participant_user_code participant_name
              (strftime result_closed_at)"
  have u: "p_uuid ?p = hex (uuid4 (rng !! k))"
    by (simp add: new_participant_def candidate_def)
  have absent: "fst (select_participant_by_uuid (p_uuid ?p) (db conn)) = None"
    using assms(5) by (simp add: u select_participant_by_uuid_def)
  show ?thesis
    using get_or_create_participant_created [OF assms(1-3) coll fresh assms(6,7)]
      u absent hex_format [of "uuid4 (rng !! k)"] hex_no_separator [of "uuid4 (rng !! k)"]
    by (intro exI [of _ ?p]) (simp only: simp_thms)
qed

lemma example_wf: "wf_database (db (example_conn n))"
  by (simp add: wf_database_def example_conn_def example_db_def)

lemma example_miss:
  "find (\<lambda>r. p_organization_id r = 42 \<and> p_space_id r = s_id example_space
                  \<and> p_participant_code r = ''P2'')
     (participants (db (example_conn n))) = None"
  by (simp add: example_conn_def example_db_def example_space_def)

lemma example_days: "timedelta (s_open_result_days example_space) = Inr 7"
  by (simp add: timedelta_def example_space_def)

lemma example_add:
  "datetime_add example_now 7
     = Inr \<lparr>year = 2024, month = 1, day = 8, hour = 0, minute = 0, second = 0,
            microsecond = 0\<rparr>"
  by code_simp

lemma example_strftime:
  "strftime \<lparr>year = 2024, month = 1, day = 8, hour = 0, minute = 0, second = 0,
            microsecond = 0\<rparr> = ''2024-01-08 00:00:00.000000''"
  by code_simp

lemma example_taken:
  "find (\<lambda>r. p_uuid r = hex (uuid4 0)) (participants (db (example_conn n))) \<noteq> None"
  by (simp add: hex_uuid4_0 example_conn_def example_db_def)

lemma example_free:
  "find (\<lambda>r. p_uuid r = hex (uuid4 1)) (participants (db (example_conn n))) = None"
  by (simp add: hex_uuid4_1 example_conn_def example_db_def)

theorem allocated_uuid_is_fresh_candidate_witness:
  "wf_database (db (example_conn None)) \<and> answers (1 + 4) (example_conn None)
   \<and> find (\<lambda>r. p_uuid r = hex (uuid4 ((0 ## sconst 1) !! 0)))
        (participants (db (example_conn None))) \<noteq> None
   \<and> find (\<lambda>r. p_uuid r = hex (uuid4 ((0 ## sconst 1) !! 1)))
        (participants (db (example_conn None))) = None
   \<and> map_option (\<lambda>r. map_sum id (map_option p_uuid) (fst r))
        (get_or_create_participant (example_conn None) 42 example_space ''P2'' ''U2'' ''Bob''
           (0 ## sconst 1) example_now)
     = Some (Inr (Some ''00000000000040008000000000000001''))"
proof -
  have h2: "answers (1 + 4) (example_conn None)"
    by (simp add: answers_def example_conn_def)
  have h4: "\<forall>i<1. find (\<lambda>r. p_uuid r = hex (uuid4 ((0 ## sconst 1) !! i)))
                     (participants (db (example_conn None))) \<noteq> None"
    using example_taken [of None] by simp
  have h5: "find (\<lambda>r. p_uuid r = hex (uuid4 ((0 ## sconst 1) !! 1)))
              (participants (db (example_conn None))) = None"
    using example_free [of None] by simp
  from allocated_uuid_is_fresh_candidate
         [OF example_wf h2 example_miss h4 h5 example_days example_add,
          of "''U2''" "''Bob''"]
  obtain p c where
    "get_or_create_participant (example_conn None) 42 example_space ''P2'' ''U2'' ''Bob''
       (0 ## sconst 1) example_now = Some (Inr (Some p), c)"
    and "p_uuid p = hex (uuid4 ((0 ## sconst 1) !! 1))"
    by blast
  then show ?thesis
    using example_wf [of None] h2 h4 h5 by (simp add: hex_uuid4_1)
qed

subsection \<open>The authentication log\<close>

lemma json_dumps_example_reason: "json_dumps 900 example_reason = Inr example_reason_json"
  by code_simp

lemma json_dumps_example_logs: "json_dumps 900 example_logs = Inr example_logs_json"
  by code_simp

lemma json_dumps_too_deep: "json_dumps 3 example_logs = Inl RecursionError"
  by code_simp

lemma json_dumps_deep_enough: "json_dumps 4 example_logs = Inr example_logs_json"
  by code_simp

lemma json_dumps_error:
  "json_dumps d v = Inl e \<longrightarrow> e = TypeError \<or> e = ValueError \<or> e = RecursionError"
  "dumps_list d vs = Inl e \<longrightarrow> e = TypeError \<or> e = ValueError \<or> e = RecursionError"
  "dumps_items d kvs = Inl e \<longrightarrow> e = TypeError \<or> e = ValueError \<or> e = RecursionError"
proof (induction d v and d vs and d kvs rule: json_dumps_dumps_list_dumps_items.induct)
  case (13 depth kv kvs)
  then show ?case
    by (cases "fst kv") (auto simp: int_repr_def split: sum.splits if_splits)
qed (auto simp: int_repr_def split: sum.splits if_splits)


lemma length_dec_power: "length (dec (10 ^ k)) = Suc k"
proof (induction k)
  case 0
  show ?case by (subst dec.simps) simp
next
  case (Suc k)
  have "\<not> (10 :: nat) ^ Suc k < 10" by simp
  moreover have "(10 :: nat) ^ Suc k div 10 = 10 ^ k" by simp
  ultimately show ?case
    using Suc.IH by (subst dec.simps) (simp del: power_Suc)
qed

lemma json_dumps_int_limit:
  "4300 \<le> k \<Longrightarrow> json_dumps depth (PInt (10 ^ k)) = Inl ValueError"
  "4300 \<le> k \<Longrightarrow> json_dumps depth (PInt (- (10 ^ k))) = Inl ValueError"
  "k < 4300 \<Longrightarrow> json_dumps depth (PInt (10 ^ k)) = Inr (dec (10 ^ k))"
proof -
  have n: "nat \<bar>(10 :: int) ^ k\<bar> = 10 ^ k"
    by (simp add: nat_power_eq)
  have m: "nat \<bar>- ((10 :: int) ^ k)\<bar> = 10 ^ k"
    by (simp add: nat_power_eq)
  have p: "nat ((10 :: int) ^ k) = 10 ^ k"
    by (simp add: nat_power_eq)
  show "4300 \<le> k \<Longrightarrow> json_dumps depth (PInt (10 ^ k)) = Inl ValueError"
    by (simp add: int_repr_def n m p length_dec_power int_max_str_digits_def)
  show "4300 \<le> k \<Longrightarrow> json_dumps depth (PInt (- (10 ^ k))) = Inl ValueError"
    by (simp add: int_repr_def n m p length_dec_power int_max_str_digits_def)
  show "k < 4300 \<Longrightarrow> json_dumps depth (PInt (10 ^ k)) = Inr (dec (10 ^ k))"
    by (simp add: int_repr_def n m p length_dec_power int_max_str_digits_def)
qed




text \<open>
  Claim C10. The only value \<open>create_face_auth_log\<close> returns is \<open>True\<close>. Every failure
  is an exception, and none of them leaves a row behind: a document that
  \<open>json.dumps\<close> rejects raises the encoder's exception (\<open>TypeError\<close>, \<open>ValueError\<close> or
  \<open>RecursionError\<close>, that of \<open>reason\<close> first) before any statement is sent, and a
  statement the server does not answer raises with the connection as it was.
\<close>

theorem create_face_auth_log_True_or_raises:
  "(\<forall>b. fst (create_face_auth_log depth conn organization_id space_id participant_id
               authentication_code is_authenticated reason logs threshold) = Inr b
         \<longrightarrow> b = True)
   \<and> (\<forall>e. fst (create_face_auth_log depth conn organization_id space_id participant_id
               authentication_code is_authenticated reason logs threshold) = Inl e
         \<longrightarrow> snd (create_face_auth_log depth conn organization_id space_id participant_id
               authentication_code is_authenticated reason logs threshold) = conn)
   \<and> ((\<exists>e. json_dumps depth reason = Inl e \<or> json_dumps depth logs = Inl e)
         \<longrightarrow> (\<exists>e. create_face_auth_log depth conn organization_id space_id participant_id
                    authentication_code is_authenticated reason logs threshold
                  = (Inl e, conn)
                \<and> (e = TypeError \<or> e = ValueError \<or> e = RecursionError)))
   \<and> (\<forall>e. json_dumps depth reason = Inl e
         \<longrightarrow> create_face_auth_log depth conn organization_id space_id participant_id
               authentication_code is_authenticated reason logs threshold
             = (Inl e, conn))
   \<and> (\<forall>e r. json_dumps depth reason = Inr r \<and> json_dumps depth logs = Inl e
         \<longrightarrow> create_face_auth_log depth conn organization_id space_id participant_id
               authentication_code is_authenticated reason logs threshold
             = (Inl e, conn))
   \<and> (statements_left conn = Some 0
         \<longrightarrow> (\<exists>e. create_face_auth_log depth conn organization_id space_id participant_id
               authentication_code is_authenticated reason logs threshold
             = (Inl e, conn)))"
  using json_dumps_error(1) [of depth reason] json_dumps_error(1) [of depth logs]
  by (auto simp: create_face_auth_log_def execute_def
      split: sum.splits prod.splits option.splits nat.splits)



theorem create_face_auth_log_True_or_raises_witness:
  "fst (create_face_auth_log 900 (example_conn None) 42 1 1 ''A1'' False
          example_reason example_logs 0x3FE8000000000000) = Inr True
   \<and> json_dumps 900 (PDict [(PStr ''seen'', PObject ''datetime'')]) = Inl TypeError
   \<and> create_face_auth_log 900 (example_conn None) 42 1 1 ''A1'' False
        example_reason (PDict [(PStr ''seen'', PObject ''datetime'')]) 0x3FE8000000000000
       = (Inl TypeError, example_conn None)
   \<and> create_face_auth_log 3 (example_conn None) 42 1 1 ''A1'' False
        example_logs example_reason 0x3FE8000000000000
       = (Inl RecursionError, example_conn None)
   \<and> snd (create_face_auth_log 900 (example_conn (Some 0)) 42 1 1 ''A1'' False
        example_reason example_logs 0x3FE8000000000000)
       = example_conn (Some 0)"
proof -
  have ok: "fst (create_face_auth_log 900 (example_conn None) 42 1 1 ''A1'' False
          example_reason example_logs 0x3FE8000000000000) = Inr True"
    by (simp add: create_face_auth_log_def json_dumps_example_reason json_dumps_example_logs
        execute_def example_conn_def insert_face_auth_log_def)
  have bad: "json_dumps 900 (PDict [(PStr ''seen'', PObject ''datetime'')]) = Inl TypeError"
    by simp
  have second: "json_dumps 900 example_reason = Inr example_reason_json
                  \<and> json_dumps 900 (PDict [(PStr ''seen'', PObject ''datetime'')])
                      = Inl TypeError"
    using bad json_dumps_example_reason by simp
  have broken: "statements_left (example_conn (Some 0)) = Some 0"
    by (simp add: example_conn_def)
  note t = create_face_auth_log_True_or_raises
  obtain e where e: "create_face_auth_log 900 (example_conn (Some 0)) 42 1 1 ''A1'' False
        example_reason example_logs 0x3FE8000000000000 = (Inl e, example_conn (Some 0))"
    using t [where conn = "example_conn (Some 0)", THEN conjunct2, THEN conjunct2,
             THEN conjunct2, THEN conjunct2, THEN conjunct2, THEN mp, OF broken]
    by blast
  from t [THEN conjunct1, rule_format, OF ok]
       t [THEN conjunct2, THEN conjunct2, THEN conjunct2, THEN conjunct2, THEN conjunct1,
          rule_format, OF second]
       t [THEN conjunct2, THEN conjunct2, THEN conjunct2, THEN conjunct1, rule_format,
          OF json_dumps_too_deep]
       e
  show ?thesis
    using ok bad by simp
qed

subsection \<open>No bound on the allocation loop\<close>

lemma candidate_repeat:
  "i < n \<Longrightarrow> candidate (replicate n w @- s) i = hex (uuid4 w)"
  "candidate (replicate n w @- s) (n + j) = candidate s j"
  by (simp_all add: candidate_def shift_snth_less shift_snth_ge)

text \<open>
  Claim C2 says that \<open>get_or_create_participant\<close> gives up with
  \<open>AllocationExhausted\<close> once more candidates than a retry budget (10, say) have
  collided. The loop \<open>while exist:\<close> counts nothing and the module has no such
  exception. With a random source whose first eleven values all give the identifier
  of a stored participant, the function does not fail: it tries the twelfth value and
  returns the participant created with it.
\<close>

theorem allocation_budget_counterexample:
  "collides (db (example_conn None)) (candidate (replicate 11 0 @- sconst 1) 0)
   \<and> collides (db (example_conn None)) (candidate (replicate 11 0 @- sconst 1) 10)
   \<and> map_option fst
        (get_or_create_participant (example_conn None) 42 example_space ''P2'' ''U2'' ''Bob''
           (replicate 11 0 @- sconst 1) example_now)
     = Some (Inr (Some \<lparr>p_id = 2, p_uuid = ''00000000000040008000000000000001'',
                         p_organization_id = 42, p_space_id = 1, p_participant_code = ''P2'',
                         p_participant_user_code = ''U2'', p_participant_name = ''Bob'',
                         p_result_closed_at = ''2024-01-08 00:00:00.000000''\<rparr>))"
proof -
  let ?rng = "replicate 11 0 @- sconst (1 :: 128 word)"
  have coll: "\<forall>i<11. collides (db (example_conn None)) (candidate ?rng i)"
    using example_taken [of None] by (simp add: candidate_repeat(1) collides_def)
  have "candidate ?rng (11 + 0) = candidate (sconst 1) 0"
    by (rule candidate_repeat(2))
  then have last: "candidate ?rng 11 = hex (uuid4 1)"
    by (simp add: candidate_def)
  have fresh: "\<not> collides (db (example_conn None)) (candidate ?rng 11)"
    using example_free [of None] by (simp add: last collides_def)
  have a: "answers (11 + 4) (example_conn None)"
    by (simp add: answers_def example_conn_def)
  have "get_or_create_participant (example_conn None) 42 example_space ''P2'' ''U2'' ''Bob''
          ?rng example_now
        = Some (Inr (Some (new_participant (db (example_conn None)) (candidate ?rng 11) 42
                             example_space ''P2'' ''U2'' ''Bob''
                             (strftime \<lparr>year = 2024, month = 1, day = 8, hour = 0, minute = 0,
                                        second = 0, microsecond = 0\<rparr>))),
                (spend (11 + 4) (example_conn None))
                   \<lparr>db := (db (example_conn None))
                      \<lparr>participants := participants (db (example_conn None)) @
                         [new_participant (db (example_conn None)) (candidate ?rng 11) 42
                             example_space ''P2'' ''U2'' ''Bob''
                             (strftime \<lparr>year = 2024, month = 1, day = 8, hour = 0, minute = 0,
                                        second = 0, microsecond = 0\<rparr>)],
                       participants_auto_increment :=
                         participants_auto_increment (db (example_conn None)) + 1\<rparr>\<rparr>)"
    by (rule get_or_create_participant_created
        [OF example_wf a example_miss coll fresh example_days example_add])
  then show ?thesis
    using coll
    by (simp add: last hex_uuid4_1 example_strftime new_participant_def example_conn_def
        example_db_def example_space_def)
qed

lemma while_exist_skip:
  assumes "answers k conn" and "\<forall>i<k. collides (db conn) (candidate rng i)"
  shows "while_exist conn organization_id space participant_code participant_user_code
           participant_name rng now
         = while_exist (spend k conn) organization_id space participant_code
             participant_user_code participant_name (sdrop k rng) now"
  using assms
proof (induction k arbitrary: conn rng)
  case 0
  have "spend 0 conn = conn"
    by (cases "statements_left conn") (simp_all add: spend_def)
  then show ?case by simp
next
  case (Suc k)
  have a1: "answers (Suc k) conn"
    using Suc.prems(1) .
  have first: "collides (db conn) (candidate rng 0)"
    using Suc.prems(2) by simp
  have a2: "answers k (spend (Suc 0) conn)"
    using Suc.prems(1) by (auto simp: answers_def spend_def split: option.splits)
  have rest: "\<forall>i<k. collides (db (spend (Suc 0) conn)) (candidate (stl rng) i)"
    using Suc.prems(2) by (simp add: candidate_stl)
  show ?case
    by (simp add: while_exist_collision [OF a1 first] Suc.IH [OF a2 rest])
qed

lemma while_exist_fresh_error:
  assumes "answers (Suc n) conn"
    and "\<not> collides (db conn) (candidate rng 0)"
    and "timedelta (s_open_result_days space) = Inl e
         \<or> (\<exists>days. timedelta (s_open_result_days space) = Inr days
                   \<and> datetime_add now days = Inl e)"
  shows "while_exist conn organization_id space participant_code participant_user_code
           participant_name rng now
         = Some (Inl e, spend (Suc 0) conn)"
proof -
  have e1: "execute conn (select_participant_by_uuid (hex (uuid4 (shd rng))))
              = (Inr None, spend (Suc 0) conn)"
    using assms(2)
    by (simp add: execute_select [OF assms(1)] select_participant_by_uuid_def collides_def
        candidate_def)
  show ?thesis
    using assms(3) by (subst while_exist.simps) (auto simp: e1)
qed

lemma date_errors:
  "timedelta v = Inl e \<Longrightarrow> e = TypeError \<or> e = OverflowError"
  "datetime_add t n = Inl e \<Longrightarrow> e = OverflowError"
  by (auto simp: timedelta_def datetime_add_def Let_def split: option.splits if_splits
      prod.splits)

text \<open>
  Claim C2, as the code has it. There is no retry budget and no
  \<open>AllocationExhausted\<close>. Take a lookup by the natural key that finds no row, a
  well-formed store and a connection that keeps answering. Whatever the number \<open>k\<close> of
  candidates that collide first, the loop goes on to the first candidate that is not
  taken and stops there: it returns the participant created with that candidate when
  \<open>open_result_days\<close> is a number whose result date exists, and otherwise it raises
  the \<open>TypeError\<close> or \<open>OverflowError\<close> of the date arithmetic. When every candidate
  collides it never returns.
\<close>

theorem allocation_has_no_retry_budget:
  assumes "wf_database (db conn)"
    and "statements_left conn = None"
    and "find (\<lambda>r. p_organization_id r = organization_id \<and> p_space_id r = s_id space
                  \<and> p_participant_code r = participant_code)
           (participants (db conn)) = None"
  shows "(\<forall>k days t. (\<forall>i<k. collides (db conn) (candidate rng i))
              \<and> \<not> collides (db conn) (candidate rng k)
              \<and> timedelta (s_open_result_days space) = Inr days
              \<and> datetime_add now days = Inr t \<longrightarrow>
            (\<exists>p c. get_or_create_participant conn organization_id space participant_code
                      participant_user_code participant_name rng now
                    = Some (Inr (Some p), c)
                  \<and> p_uuid p = candidate rng k))
       \<and> (\<forall>k e. (\<forall>i<k. collides (db conn) (candidate rng i))
              \<and> \<not> collides (db conn) (candidate rng k)
              \<and> (timedelta (s_open_result_days space) = Inl e
                  \<or> (\<exists>days. timedelta (s_open_result_days space) = Inr days
                            \<and> datetime_add now days = Inl e)) \<longrightarrow>
            get_or_create_participant conn organization_id space participant_code
              participant_user_code participant_name rng now
              = Some (Inl e, conn)
            \<and> (e = TypeError \<or> e = OverflowError))
       \<and> ((\<forall>i. collides (db conn) (candidate rng i)) \<longrightarrow>
            get_or_create_participant conn organization_id space participant_code
              participant_user_code participant_name rng now = None)"
proof (intro conjI allI impI)
  fix k days t
  assume h: "(\<forall>i<k. collides (db conn) (candidate rng i))
              \<and> \<not> collides (db conn) (candidate rng k)
              \<and> timedelta (s_open_result_days space) = Inr days
              \<and> datetime_add now days = Inr t"
  have a: "answers (k + 4) conn"
    using assms(2) by (simp add: answers_def)
  from h have c: "\<forall>i<k. collides (db conn) (candidate rng i)"
    and f: "\<not> collides (db conn) (candidate rng k)"
    and d: "timedelta (s_open_result_days space) = Inr days"
    and t: "datetime_add now days = Inr t"
    by blast+
  show "\<exists>p c. get_or_create_participant conn organization_id space participant_code
                      participant_user_code participant_name rng now
                    = Some (Inr (Some p), c)
                  \<and> p_uuid p = candidate rng k"
    using get_or_create_participant_created [OF assms(1) a assms(3) c f d t]
    by (simp add: new_participant_def)
next
  fix k e
  assume h: "(\<forall>i<k. collides (db conn) (candidate rng i))
              \<and> \<not> collides (db conn) (candidate rng k)
              \<and> (timedelta (s_open_result_days space) = Inl e
                  \<or> (\<exists>days. timedelta (s_open_result_days space) = Inr days
                            \<and> datetime_add now days = Inl e))"
  have sp: "spend j conn = conn" for j
    using assms(2) by (simp add: spend_def)
  have a: "answers j conn" for j
    using assms(2) by (simp add: answers_def)
  from h have c: "\<forall>i<k. collides (db conn) (candidate rng i)"
    and f: "\<not> collides (db conn) (candidate rng k)"
    and d: "timedelta (s_open_result_days space) = Inl e
            \<or> (\<exists>days. timedelta (s_open_result_days space) = Inr days
                      \<and> datetime_add now days = Inl e)"
    by blast+
  have f0: "\<not> collides (db conn) (candidate (sdrop k rng) 0)"
    using f by (simp add: candidate_def sdrop_snth)
  have "get_or_create_participant conn organization_id space participant_code
          participant_user_code participant_name rng now
        = while_exist conn organization_id space participant_code participant_user_code
            participant_name (sdrop k rng) now"
    using while_exist_skip
            [OF a c, where organization_id = organization_id and space = space
              and participant_code = participant_code
              and participant_user_code = participant_user_code
              and participant_name = participant_name and now = now]
    by (simp add: get_or_create_participant_miss [OF a assms(3)] sp)
  also have "\<dots> = Some (Inl e, conn)"
    using while_exist_fresh_error [OF a f0 d] by (simp add: sp)
  finally show "get_or_create_participant conn organization_id space participant_code
              participant_user_code participant_name rng now
              = Some (Inl e, conn)" .
  show "e = TypeError \<or> e = OverflowError"
    using d date_errors by blast
next
  assume all: "\<forall>i. collides (db conn) (candidate rng i)"
  have a: "answers (Suc 0) conn"
    using assms(2) by (simp add: answers_def)
  have sp: "spend (Suc 0) conn = conn"
    using assms(2) by (simp add: spend_def)
  show "get_or_create_participant conn organization_id space participant_code
              participant_user_code participant_name rng now = None"
  proof (rule ccontr)
    assume "get_or_create_participant conn organization_id space participant_code
              participant_user_code participant_name rng now \<noteq> None"
    then obtain y where "while_exist conn organization_id space participant_code
              participant_user_code participant_name rng now = Some y"
      by (auto simp: get_or_create_participant_miss [OF a assms(3)] sp)
    from while_exist_returns_only_if_fresh [OF this] assms(2) all
    show False by blast
  qed
qed


theorem allocation_has_no_retry_budget_witness:
  "wf_database (db (example_conn None)) \<and> statements_left (example_conn None) = None
   \<and> \<not> collides (db (example_conn None)) (candidate (replicate 11 0 @- sconst 1) 11)
   \<and> collides (db (example_conn None)) (candidate (sconst 0) 0)
   \<and> (\<exists>p c. get_or_create_participant (example_conn None) 42 example_space ''P2'' ''U2''
               ''Bob'' (replicate 11 0 @- sconst 1) example_now = Some (Inr (Some p), c)
             \<and> p_uuid p = ''00000000000040008000000000000001'')
   \<and> get_or_create_participant (example_conn None) 42
        (example_space\<lparr>s_open_result_days := None\<rparr>) ''P2'' ''U2'' ''Bob''
        (replicate 11 0 @- sconst 1) example_now
       = Some (Inl TypeError, example_conn None)
   \<and> get_or_create_participant (example_conn None) 42 example_space ''P2'' ''U2'' ''Bob''
        (sconst 0) example_now = None"
proof -
  let ?rng = "replicate 11 0 @- sconst (1 :: 128 word)"
  let ?null = "example_space\<lparr>s_open_result_days := None\<rparr>"
  have never: "statements_left (example_conn None) = None"
    by (simp add: example_conn_def)
  have coll: "\<forall>i<11. collides (db (example_conn None)) (candidate ?rng i)"
    using example_taken [of None] by (simp add: candidate_repeat(1) collides_def)
  have "candidate ?rng (11 + 0) = candidate (sconst 1) 0"
    by (rule candidate_repeat(2))
  then have last: "candidate ?rng 11 = ''00000000000040008000000000000001''"
    by (simp add: candidate_def hex_uuid4_1)
  have fresh: "\<not> collides (db (example_conn None)) (candidate ?rng 11)"
    using example_free [of None] by (simp add: last hex_uuid4_1 collides_def)
  have always: "\<forall>i. collides (db (example_conn None)) (candidate (sconst 0) i)"
    using example_taken [of None] by (simp add: candidate_def collides_def)
  have miss_null:
    "find (\<lambda>r. p_organization_id r = 42 \<and> p_space_id r = s_id ?null
                  \<and> p_participant_code r = ''P2'')
       (participants (db (example_conn None))) = None"
    using example_miss [of None] by simp
  have null: "timedelta (s_open_result_days ?null) = Inl TypeError"
    by (simp add: timedelta_def)
  note t = allocation_has_no_retry_budget [OF example_wf never example_miss]
  note u = allocation_has_no_retry_budget [OF example_wf never miss_null]
  from t [where rng = ?rng, THEN conjunct1, rule_format,
          OF conjI [OF coll conjI [OF fresh conjI [OF example_days example_add]]]]
       u [where rng = ?rng, THEN conjunct2, THEN conjunct1, rule_format,
          OF conjI [OF coll conjI [OF fresh disjI1 [OF null]]], THEN conjunct1]
       t [where rng = "sconst 0", THEN conjunct2, THEN conjunct2, THEN mp, OF always]
  show ?thesis
    using example_wf [of None] never fresh always by (simp add: last)
qed

subsection \<open>The calendar and \<open>result_closed_at\<close>\<close>
























end
